theory Spec2Isabelle
  imports Main "HOL-Library.Word"
begin

section \<open>Template configurations of utility VMs: codec, registry store, lifecycle\<close>

text \<open>
  The development follows \<^verbatim>\<open>cmd/containerd-shim-runhcs-v1/clone.go\<close>: the workflow
  \<^verbatim>\<open>saveAsTemplate\<close> of package main and the functions of package clone that encode a
  template configuration, keep it in the registry under the root \<^verbatim>\<open>LateClone\<close> and
  fetch or remove it again.

  A Go result \<^verbatim>\<open>(value, err)\<close> is a pair of options: \<open>None\<close> is \<^verbatim>\<open>nil\<close>. A function
  that touches the registry or the VM takes the world and returns the new one.
\<close>

subsection \<open>Bytes and errors\<close>

type_synonym byte = "8 word"
type_synonym bytes = "byte list"

text \<open>
  The errors that travel through the package, by their dynamic type:
  the not-found error of package regstate, any other failure of the registry, a failure of
  the VM, and an error that is only a text (what \<^verbatim>\<open>fmt.Errorf\<close> and \<^verbatim>\<open>errors.New\<close>
  build; the errors of package gob are of this kind).
\<close>

datatype error =
    NotFoundError string
  | StoreError string
  | CollaboratorError string
  | ErrorString string

text \<open>
  Modelled from the spec: package regstate is not among the sources. \<open>NotFoundError\<close> is
  its NotFound condition for the id it carries, and \<open>IsNotFoundError\<close> recognises it by
  the dynamic type of the error; a \<^verbatim>\<open>nil\<close> error is not one.
\<close>

fun IsNotFoundError :: "error option \<Rightarrow> bool" where
  "IsNotFoundError (Some (NotFoundError _)) = True"
| "IsNotFoundError _ = False"

text \<open>
  The text of an error (Go's method \<^verbatim>\<open>Error()\<close>). Modelled from the spec: the text of
  the not-found error belongs to package regstate, which is not among the sources; the
  properties below use it only as the text of that error, whatever it is.
\<close>

fun Error :: "error \<Rightarrow> string" where
  "Error (NotFoundError ident) = ''ID '' @ [CHR 0x27] @ ident @ [CHR 0x27] @ '' was not found''"
| "Error (StoreError msg) = msg"
| "Error (CollaboratorError msg) = msg"
| "Error (ErrorString msg) = msg"

text \<open>
  The verb \<^verbatim>\<open>%s\<close> of \<^verbatim>\<open>fmt.Errorf\<close> applied to an error operand: the error's text, and
  for a \<^verbatim>\<open>nil\<close> operand the marker that package fmt prints.
\<close>

fun fmt_s :: "error option \<Rightarrow> string" where
  "fmt_s None = ''%!s(<nil>)''"
| "fmt_s (Some e) = Error e"

subsection \<open>Template configurations\<close>

text \<open>
  Modelled from the spec: package uvm is not among the sources. A resource descriptor is a
  value of an interface type: one of the two concrete types that \<^verbatim>\<open>init\<close> registers, or
  a value of any other concrete type, given with the name of that type. What a descriptor
  carries is opaque here: its serialisable fields, as bytes. A template configuration is
  the id of the VM and the ordered sequence of its resource descriptors.
\<close>

datatype Cloneable =
    VSMBShare bytes
  | SCSIMount bytes
  | Unregistered string bytes

record UVMTemplateConfig =
  UVMID :: string
  Resources :: "Cloneable list"

fun gob_name :: "Cloneable \<Rightarrow> string" where
  "gob_name (VSMBShare _) = ''*uvm.VSMBShare''"
| "gob_name (SCSIMount _) = ''*uvm.SCSIMount''"
| "gob_name (Unregistered n _) = n"

fun fields :: "Cloneable \<Rightarrow> bytes" where
  "fields (VSMBShare p) = p"
| "fields (SCSIMount p) = p"
| "fields (Unregistered _ p) = p"

fun registered :: "Cloneable \<Rightarrow> bool" where
  "registered (VSMBShare _) = True"
| "registered (SCSIMount _) = True"
| "registered (Unregistered _ _) = False"

text \<open>The names under which \<^verbatim>\<open>init\<close> registers the two pointer types with gob.\<close>

definition init :: "string list" where
  "init = [''*uvm.VSMBShare'', ''*uvm.SCSIMount'']"

subsection \<open>The codec\<close>

text \<open>
  Modelled from the spec: the wire format of package gob and the encoding methods of the
  descriptor types are not among the sources. The model keeps what the spec says of the
  codec: the concrete variant of every descriptor is written as a tag (the registered
  name) ahead of its fields, the descriptors keep their order, encoding a descriptor of an
  unregistered type fails, and decoding fails on truncated bytes and on a tag that is not
  registered. A length is written base 128, low digit first, with the high bit set on every
  byte but the last.
\<close>

fun encodeUint :: "nat \<Rightarrow> bytes" where
  "encodeUint n =
     (if n < 128 then [of_nat n] else of_nat (128 + n mod 128) # encodeUint (n div 128))"

declare encodeUint.simps [simp del]

fun decodeUint :: "bytes \<Rightarrow> (nat \<times> bytes) option" where
  "decodeUint [] = None"
| "decodeUint (b # bs) =
     (if unat b < 128 then Some (unat b, bs)
      else (case decodeUint bs of
              None \<Rightarrow> None
            | Some (n, rest) \<Rightarrow> Some (unat b - 128 + 128 * n, rest)))"

definition encodeBytes :: "bytes \<Rightarrow> bytes" where
  "encodeBytes p = encodeUint (length p) @ p"

definition decodeBytes :: "bytes \<Rightarrow> (bytes \<times> bytes) option" where
  "decodeBytes bs =
     (case decodeUint bs of
        None \<Rightarrow> None
      | Some (n, rest) \<Rightarrow>
          if length rest < n then None else Some (take n rest, drop n rest))"

definition encodeString :: "string \<Rightarrow> bytes" where
  "encodeString s = encodeBytes (map of_char s)"

definition decodeString :: "bytes \<Rightarrow> (string \<times> bytes) option" where
  "decodeString bs =
     (case decodeBytes bs of
        None \<Rightarrow> None
      | Some (p, rest) \<Rightarrow> Some (map (\<lambda>b. char_of (unat b)) p, rest))"

definition wireCloneable :: "Cloneable \<Rightarrow> bytes" where
  "wireCloneable r = encodeString (gob_name r) @ encodeBytes (fields r)"

definition wireConfig :: "UVMTemplateConfig \<Rightarrow> bytes" where
  "wireConfig utc =
     encodeString (UVMID utc) @ encodeUint (length (Resources utc))
       @ concat (map wireCloneable (Resources utc))"

text \<open>
  Modelled from the spec: \<^verbatim>\<open>Encoder.Encode\<close> appends the message to the buffer, or fails
  on the first descriptor whose type is not registered and writes nothing.
\<close>

definition gob_Encode :: "UVMTemplateConfig \<Rightarrow> bytes \<Rightarrow> bytes \<times> error option" where
  "gob_Encode utc buf =
     (case find (\<lambda>r. \<not> registered r) (Resources utc) of
        Some r \<Rightarrow>
          (buf, Some (ErrorString (''gob: type not registered for interface: '' @ gob_name r)))
      | None \<Rightarrow> (buf @ wireConfig utc, None))"

definition unexpectedEOF :: error where
  "unexpectedEOF = ErrorString ''unexpected EOF''"

text \<open>
  Modelled from the spec: decoding one descriptor; the tag is looked up among the registered
  names before the fields are read.
\<close>

definition decodeCloneable :: "bytes \<Rightarrow> error + (Cloneable \<times> bytes)" where
  "decodeCloneable bs =
     (case decodeString bs of
        None \<Rightarrow> Inl unexpectedEOF
      | Some (name, rest) \<Rightarrow>
          if name \<notin> set init then
            Inl (ErrorString (''gob: name not registered for interface: ''
                                @ [CHR 0x22] @ name @ [CHR 0x22]))
          else (case decodeBytes rest of
                  None \<Rightarrow> Inl unexpectedEOF
                | Some (p, rest') \<Rightarrow>
                    if name = ''*uvm.VSMBShare'' then Inr (VSMBShare p, rest')
                    else Inr (SCSIMount p, rest')))"

text \<open>
  Modelled from the spec: \<^verbatim>\<open>Decoder.Decode\<close> fills the configuration it is given as it
  reads; on a failure the fields read so far stay set.
\<close>

fun decodeResources ::
  "nat \<Rightarrow> bytes \<Rightarrow> UVMTemplateConfig \<Rightarrow> UVMTemplateConfig \<times> error option" where
  "decodeResources 0 bs utc = (utc, None)"
| "decodeResources (Suc n) bs utc =
     (case decodeCloneable bs of
        Inl e \<Rightarrow> (utc, Some e)
      | Inr (r, rest) \<Rightarrow> decodeResources n rest (utc\<lparr>Resources := Resources utc @ [r]\<rparr>))"

definition gob_Decode :: "bytes \<Rightarrow> UVMTemplateConfig \<Rightarrow> UVMTemplateConfig \<times> error option" where
  "gob_Decode bs utc =
     (case decodeString bs of
        None \<Rightarrow> (utc, Some unexpectedEOF)
      | Some (ident, rest) \<Rightarrow>
          (case decodeUint rest of
             None \<Rightarrow> (utc\<lparr>UVMID := ident\<rparr>, Some unexpectedEOF)
           | Some (n, rest') \<Rightarrow> decodeResources n rest' (utc\<lparr>UVMID := ident, Resources := []\<rparr>)))"

text \<open>The two functions of the source.\<close>

definition encodeTemplateConfig :: "UVMTemplateConfig \<Rightarrow> bytes option \<times> error option" where
  "encodeTemplateConfig utc =
     (case gob_Encode utc [] of
        (_, Some err) \<Rightarrow>
          (None, Some (ErrorString (''error while encoding template config: '' @ fmt_s (Some err))))
      | (buf, None) \<Rightarrow> (Some buf, None))"

definition decodeTemplateConfig :: "bytes \<Rightarrow> UVMTemplateConfig option \<times> error option" where
  "decodeTemplateConfig encodedBytes =
     (case gob_Decode encodedBytes \<lparr>UVMID = [], Resources = []\<rparr> of
        (_, Some err) \<Rightarrow>
          (None, Some (ErrorString (''error while decoding template config: '' @ fmt_s (Some err))))
      | (utc, None) \<Rightarrow> (Some utc, None))"

subsection \<open>The registry\<close>

text \<open>
  Modelled from the spec: package regstate is not among the sources. The registry holds,
  for each root (namespace), the ids created under it and for each id its named values.
  \<open>Open\<close> gives a handle to a root and fails with the NotFound condition when the root
  does not exist; \<open>Get\<close> gives the bytes of a value or NotFound; \<open>Create\<close> fails when
  the id exists; \<open>Remove\<close> removes the id or reports NotFound. Any operation may also
  fail for a reason of the underlying store, which is no NotFound: \<open>failing\<close> gives the
  operations that do, with the text of the failure. Every call made to the registry, to
  the codec and to the VM is appended to \<open>calls\<close>, in order.
\<close>

datatype regop = OpOpen | OpGet | OpCreate | OpRemove

datatype call =
    RegOpen string
  | RegGet string string
  | RegCreate string string bytes
  | RegRemove string
  | RegClose string
  | CallEncode
  | CallDecode
  | VMRemoveAllNICs
  | VMCloseGCSConnection
  | VMGenerateTemplateConfig
  | VMSaveAsTemplate

record world =
  registry :: "string \<rightharpoonup> (string \<rightharpoonup> (string \<rightharpoonup> bytes))"
  failing :: "regop \<rightharpoonup> string"
  calls :: "call list"

definition log_call :: "call \<Rightarrow> world \<Rightarrow> world" where
  "log_call c w = w\<lparr>calls := calls w @ [c]\<rparr>"

datatype Key = Key string

text \<open>
  Modelled from the spec: \<^verbatim>\<open>regstate.Open(root, perm)\<close>, the handle to a root, or the
  NotFound condition when the root is not there (the condition that
  \<^verbatim>\<open>removePersistedUVMConfig\<close> tests for after \<^verbatim>\<open>Open\<close>).
\<close>

definition regstate_Open :: "string \<Rightarrow> bool \<Rightarrow> world \<Rightarrow> (error + Key) \<times> world" where
  "regstate_Open root perm w =
     (case failing w OpOpen of
        Some msg \<Rightarrow> (Inl (StoreError msg), log_call (RegOpen root) w)
      | None \<Rightarrow>
          (case registry w root of
             None \<Rightarrow> (Inl (NotFoundError root), log_call (RegOpen root) w)
           | Some _ \<Rightarrow> (Inr (Key root), log_call (RegOpen root) w)))"

text \<open>
  Modelled from the spec: \<^verbatim>\<open>Get(id, key, &state)\<close>, the bytes stored for the id under the
  key, or NotFound.
\<close>

fun Key_Get :: "Key \<Rightarrow> string \<Rightarrow> string \<Rightarrow> world \<Rightarrow> (error + bytes) \<times> world" where
  "Key_Get (Key root) ident key w =
     (case failing w OpGet of
        Some msg \<Rightarrow> (Inl (StoreError msg), log_call (RegGet ident key) w)
      | None \<Rightarrow>
          (case registry w root of
             None \<Rightarrow> (Inl (NotFoundError ident), log_call (RegGet ident key) w)
           | Some ns \<Rightarrow>
               (case ns ident of
                  None \<Rightarrow> (Inl (NotFoundError ident), log_call (RegGet ident key) w)
                | Some vals \<Rightarrow>
                    (case vals key of
                       None \<Rightarrow> (Inl (NotFoundError ident), log_call (RegGet ident key) w)
                     | Some state \<Rightarrow> (Inr state, log_call (RegGet ident key) w)))))"

text \<open>
  Modelled from the spec: \<^verbatim>\<open>Create(id, key, state)\<close> makes the id with the one value
  and fails when the id exists; it never overwrites.
\<close>

fun Key_Create :: "Key \<Rightarrow> string \<Rightarrow> string \<Rightarrow> bytes \<Rightarrow> world \<Rightarrow> error option \<times> world" where
  "Key_Create (Key root) ident key state w =
     (case failing w OpCreate of
        Some msg \<Rightarrow> (Some (StoreError msg), log_call (RegCreate ident key state) w)
      | None \<Rightarrow>
          (case registry w root of
             None \<Rightarrow> (Some (NotFoundError root), log_call (RegCreate ident key state) w)
           | Some ns \<Rightarrow>
               (case ns ident of
                  Some _ \<Rightarrow>
                    (Some (StoreError (''key '' @ ident @ '' exists'')),
                     log_call (RegCreate ident key state) w)
                | None \<Rightarrow>
                    (None,
                     log_call (RegCreate ident key state)
                       (w\<lparr>registry := (registry w)(root \<mapsto> ns(ident \<mapsto> [key \<mapsto> state]))\<rparr>)))))"

text \<open>
  Modelled from the spec: \<^verbatim>\<open>Remove(id)\<close> removes the id with all its values, or reports
  NotFound.
\<close>

fun Key_Remove :: "Key \<Rightarrow> string \<Rightarrow> world \<Rightarrow> error option \<times> world" where
  "Key_Remove (Key root) ident w =
     (case failing w OpRemove of
        Some msg \<Rightarrow> (Some (StoreError msg), log_call (RegRemove ident) w)
      | None \<Rightarrow>
          (case registry w root of
             None \<Rightarrow> (Some (NotFoundError ident), log_call (RegRemove ident) w)
           | Some ns \<Rightarrow>
               (case ns ident of
                  None \<Rightarrow> (Some (NotFoundError ident), log_call (RegRemove ident) w)
                | Some _ \<Rightarrow>
                    (None,
                     log_call (RegRemove ident)
                       (w\<lparr>registry := (registry w)(root \<mapsto> ns(ident := None))\<rparr>)))))"

text \<open>Modelled from the spec: \<^verbatim>\<open>Close()\<close> releases the handle.\<close>

fun Key_Close :: "Key \<Rightarrow> world \<Rightarrow> world" where
  "Key_Close (Key root) w = log_call (RegClose root) w"

subsection \<open>Package clone: the store wrappers\<close>

definition configRoot :: string where
  "configRoot = ''LateClone''"

definition configKey :: string where
  "configKey = ''UVMConfig''"

text \<open>The deferred \<^verbatim>\<open>sk.Close()\<close> runs on every path that has opened the root.\<close>

definition loadPersistedUVMConfig :: "string \<Rightarrow> world \<Rightarrow> (bytes option \<times> error option) \<times> world" where
  "loadPersistedUVMConfig ident w =
     (case regstate_Open configRoot False w of
        (Inl err, w1) \<Rightarrow> ((None, Some err), w1)
      | (Inr sk, w1) \<Rightarrow>
          (case Key_Get sk ident configKey w1 of
             (Inl err, w2) \<Rightarrow> ((None, Some err), Key_Close sk w2)
           | (Inr encodedConfig, w2) \<Rightarrow> ((Some encodedConfig, None), Key_Close sk w2)))"

definition storePersistedUVMConfig :: "string \<Rightarrow> bytes \<Rightarrow> world \<Rightarrow> error option \<times> world" where
  "storePersistedUVMConfig ident encodedConfig w =
     (case regstate_Open configRoot False w of
        (Inl err, w1) \<Rightarrow> (Some err, w1)
      | (Inr sk, w1) \<Rightarrow>
          (case Key_Create sk ident configKey encodedConfig w1 of
             (Some err, w2) \<Rightarrow> (Some err, Key_Close sk w2)
           | (None, w2) \<Rightarrow> (None, Key_Close sk w2)))"

definition removePersistedUVMConfig :: "string \<Rightarrow> world \<Rightarrow> error option \<times> world" where
  "removePersistedUVMConfig ident w =
     (case regstate_Open configRoot False w of
        (Inl err, w1) \<Rightarrow> if IsNotFoundError (Some err) then (None, w1) else (Some err, w1)
      | (Inr sk, w1) \<Rightarrow>
          (case Key_Remove sk ident w1 of
             (Some err, w2) \<Rightarrow>
               if IsNotFoundError (Some err) then (None, Key_Close sk w2)
               else (Some err, Key_Close sk w2)
           | (None, w2) \<Rightarrow> (None, Key_Close sk w2)))"

subsection \<open>Package clone: save, remove, fetch\<close>

text \<open>
  A \<^verbatim>\<open>nil\<close> slice is the empty slice. The codec has no effect on the world: that
  \<^verbatim>\<open>encodeTemplateConfig\<close> or \<^verbatim>\<open>decodeTemplateConfig\<close> has been called is
  recorded in \<open>calls\<close> where the call is made.
\<close>

fun nilAsEmpty :: "bytes option \<Rightarrow> bytes" where
  "nilAsEmpty None = []"
| "nilAsEmpty (Some bs) = bs"

definition SaveTemplateConfig :: "UVMTemplateConfig \<Rightarrow> world \<Rightarrow> error option \<times> world" where
  "SaveTemplateConfig utc w =
     (case loadPersistedUVMConfig (UVMID utc) w of
        ((_, err), w1) \<Rightarrow>
          if \<not> IsNotFoundError err then
            (Some (ErrorString (''parent VM(ID: '' @ UVMID utc
                      @ '') config shouldn't exit in registry ('' @ fmt_s err @ '')'')), w1)
          else
            (case encodeTemplateConfig utc of
               (_, Some err) \<Rightarrow>
                 (Some (ErrorString (''failed to encode template config: '' @ fmt_s (Some err))),
                  log_call CallEncode w1)
             | (encodedBytes, None) \<Rightarrow>
                 (case storePersistedUVMConfig (UVMID utc) (nilAsEmpty encodedBytes)
                         (log_call CallEncode w1) of
                    (Some err, w2) \<Rightarrow>
                      (Some (ErrorString (''failed to store encoded template config: ''
                                            @ fmt_s (Some err))), w2)
                  | (None, w2) \<Rightarrow> (None, w2))))"

definition RemoveSavedTemplateConfig :: "string \<Rightarrow> world \<Rightarrow> error option \<times> world" where
  "RemoveSavedTemplateConfig ident w = removePersistedUVMConfig ident w"

definition FetchTemplateConfig ::
  "string \<Rightarrow> world \<Rightarrow> (UVMTemplateConfig option \<times> error option) \<times> world" where
  "FetchTemplateConfig ident w =
     (case loadPersistedUVMConfig ident w of
        ((_, Some err), w1) \<Rightarrow>
          ((None, Some (ErrorString (''failed to fetch encoded template config: ''
                                       @ fmt_s (Some err)))), w1)
      | ((encodedBytes, None), w1) \<Rightarrow>
          (case decodeTemplateConfig (nilAsEmpty encodedBytes) of
             (_, Some err) \<Rightarrow>
               ((None, Some (ErrorString (''failed to decode template config: ''
                                            @ fmt_s (Some err)))), log_call CallDecode w1)
           | (utc, None) \<Rightarrow> ((utc, None), log_call CallDecode w1)))"

subsection \<open>The VM and the workflow of package main\<close>

text \<open>
  Modelled from the spec: package uvm is not among the sources. The utility VM has an id,
  the NICs and the resources attached to it, a connection to the guest (GCS) and a mark
  that says it is a template. Each of its four operations either fails, for a reason of
  the VM given by \<open>refusing\<close>, and changes nothing, or does its work: all NICs removed,
  the connection closed, a configuration made of the id and the attached resources,
  the VM marked as a template.
\<close>

record UtilityVM =
  vmID :: string
  nics :: "string list"
  gcsConnected :: bool
  attached :: "Cloneable list"
  isTemplate :: bool
  refusing :: "call \<rightharpoonup> string"

text \<open>Modelled from the spec: \<^verbatim>\<open>host.RemoveAllNICs(ctx)\<close>.\<close>

definition RemoveAllNICs :: "UtilityVM \<Rightarrow> world \<Rightarrow> error option \<times> UtilityVM \<times> world" where
  "RemoveAllNICs host w =
     (case refusing host VMRemoveAllNICs of
        Some msg \<Rightarrow> (Some (CollaboratorError msg), host, log_call VMRemoveAllNICs w)
      | None \<Rightarrow> (None, host\<lparr>nics := []\<rparr>, log_call VMRemoveAllNICs w))"

text \<open>Modelled from the spec: \<^verbatim>\<open>host.CloseGCSConnection()\<close>.\<close>

definition CloseGCSConnection :: "UtilityVM \<Rightarrow> world \<Rightarrow> error option \<times> UtilityVM \<times> world" where
  "CloseGCSConnection host w =
     (case refusing host VMCloseGCSConnection of
        Some msg \<Rightarrow> (Some (CollaboratorError msg), host, log_call VMCloseGCSConnection w)
      | None \<Rightarrow> (None, host\<lparr>gcsConnected := False\<rparr>, log_call VMCloseGCSConnection w))"

text \<open>Modelled from the spec: \<^verbatim>\<open>host.GenerateTemplateConfig()\<close>.\<close>

definition GenerateTemplateConfig ::
  "UtilityVM \<Rightarrow> world \<Rightarrow> (UVMTemplateConfig option \<times> error option) \<times> world" where
  "GenerateTemplateConfig host w =
     (case refusing host VMGenerateTemplateConfig of
        Some msg \<Rightarrow> ((None, Some (CollaboratorError msg)), log_call VMGenerateTemplateConfig w)
      | None \<Rightarrow>
          ((Some \<lparr>UVMID = vmID host, Resources = attached host\<rparr>, None),
           log_call VMGenerateTemplateConfig w))"

text \<open>Modelled from the spec: \<^verbatim>\<open>host.SaveAsTemplate(ctx)\<close>.\<close>

definition SaveAsTemplate :: "UtilityVM \<Rightarrow> world \<Rightarrow> error option \<times> UtilityVM \<times> world" where
  "SaveAsTemplate host w =
     (case refusing host VMSaveAsTemplate of
        Some msg \<Rightarrow> (Some (CollaboratorError msg), host, log_call VMSaveAsTemplate w)
      | None \<Rightarrow> (None, host\<lparr>isTemplate := True\<rparr>, log_call VMSaveAsTemplate w))"

text \<open>
  \<^verbatim>\<open>saveAsTemplate\<close>. A \<^verbatim>\<open>nil\<close> configuration returned without an error would make
  \<^verbatim>\<open>SaveTemplateConfig\<close> read through a nil pointer: the run-time panic is the error of
  that branch.
\<close>

definition nilDereference :: error where
  "nilDereference = ErrorString ''invalid memory address or nil pointer dereference''"

definition saveAsTemplate :: "UtilityVM \<Rightarrow> world \<Rightarrow> error option \<times> UtilityVM \<times> world" where
  "saveAsTemplate host w =
     (case RemoveAllNICs host w of
        (Some err, host1, w1) \<Rightarrow> (Some err, host1, w1)
      | (None, host1, w1) \<Rightarrow>
     (case CloseGCSConnection host1 w1 of
        (Some err, host2, w2) \<Rightarrow> (Some err, host2, w2)
      | (None, host2, w2) \<Rightarrow>
     (case GenerateTemplateConfig host2 w2 of
        ((_, Some err), w3) \<Rightarrow> (Some err, host2, w3)
      | ((None, None), w3) \<Rightarrow> (Some nilDereference, host2, w3)
      | ((Some utc, None), w3) \<Rightarrow>
     (case SaveTemplateConfig utc w3 of
        (Some err, w4) \<Rightarrow> (Some err, host2, w4)
      | (None, w4) \<Rightarrow>
     (case SaveAsTemplate host2 w4 of
        (Some err, host3, w5) \<Rightarrow> (Some err, host3, w5)
      | (None, host3, w5) \<Rightarrow> (None, host3, w5))))))"

text \<open>
  The steps of the workflow that a sequence of calls shows: every call belongs to one
  step (the calls to the registry and to the codec are made by the persist step), and
  calls of the same step that follow each other are one run of it.
\<close>

datatype step = Detach | Sever | Generate | Persist | Mark

fun step_of :: "call \<Rightarrow> step" where
  "step_of VMRemoveAllNICs = Detach"
| "step_of VMCloseGCSConnection = Sever"
| "step_of VMGenerateTemplateConfig = Generate"
| "step_of VMSaveAsTemplate = Mark"
| "step_of _ = Persist"

definition steps_of :: "call list \<Rightarrow> step list" where
  "steps_of cs = remdups_adj (map step_of cs)"

subsection \<open>Observations and sample values\<close>

text \<open>The bytes persisted for an id: the value \<open>configKey\<close> of the id under \<open>configRoot\<close>.\<close>

definition stored :: "world \<Rightarrow> string \<Rightarrow> bytes option" where
  "stored w ident =
     (case registry w configRoot of
        None \<Rightarrow> None
      | Some ns \<Rightarrow> (case ns ident of None \<Rightarrow> None | Some vals \<Rightarrow> vals configKey))"

text \<open>The calls made between two worlds.\<close>

definition calls_between :: "world \<Rightarrow> world \<Rightarrow> call list" where
  "calls_between w w' = drop (length (calls w)) (calls w')"

text \<open>
  A registry without the root, a registry with the root and no id under it, a
  configuration of two registered descriptors, two configurations that hold a descriptor of
  a type that is not registered, a VM, the same VM when it refuses to close the connection
  to the guest or refuses any one given operation, and a registry whose underlying store
  refuses to remove.
\<close>

definition worldNoRoot :: world where
  "worldNoRoot = \<lparr>registry = Map.empty, failing = Map.empty, calls = []\<rparr>"

definition worldFresh :: world where
  "worldFresh = \<lparr>registry = [''LateClone'' \<mapsto> Map.empty], failing = Map.empty, calls = []\<rparr>"

definition configOne :: UVMTemplateConfig where
  "configOne = \<lparr>UVMID = ''vm1'', Resources = [VSMBShare [1, 2], SCSIMount [3]]\<rparr>"

definition configForeignA :: UVMTemplateConfig where
  "configForeignA = \<lparr>UVMID = ''vmA'', Resources = [Unregistered ''*uvm.Plan9Share'' [7]]\<rparr>"

definition configForeignB :: UVMTemplateConfig where
  "configForeignB = \<lparr>UVMID = ''vmB'', Resources = [Unregistered ''*uvm.Plan9Share'' [7]]\<rparr>"

definition configTwo :: UVMTemplateConfig where
  "configTwo = \<lparr>UVMID = ''vm2'', Resources = [SCSIMount [9]]\<rparr>"

definition hostOne :: UtilityVM where
  "hostOne = \<lparr>vmID = ''vm1'', nics = [''nic0''], gcsConnected = True,
               attached = [VSMBShare [1, 2], SCSIMount [3]], isTemplate = False,
               refusing = Map.empty\<rparr>"

definition hostStuck :: UtilityVM where
  "hostStuck = hostOne\<lparr>refusing := [VMCloseGCSConnection \<mapsto> ''gcs: connection not closed'']\<rparr>"

definition hostRefusing :: "call \<Rightarrow> UtilityVM" where
  "hostRefusing c = hostOne\<lparr>refusing := [c \<mapsto> ''refused'']\<rparr>"

definition worldDenied :: world where
  "worldDenied = worldFresh\<lparr>failing := [OpRemove \<mapsto> ''Access is denied.'']\<rparr>"

section \<open>Properties\<close>

subsection \<open>The codec\<close>

lemma unat_of_nat_byte: "n < 256 \<Longrightarrow> unat (of_nat n :: byte) = n"
  by (simp add: unat_of_nat)

lemma decodeUint_encodeUint: "decodeUint (encodeUint n @ rest) = Some (n, rest)"
proof (induction n rule: encodeUint.induct)
  case (1 n)
  show ?case
  proof (cases "n < 128")
    case True
    then show ?thesis by (simp add: encodeUint.simps [of n] unat_of_nat_byte)
  next
    case False
    have "unat (of_nat (128 + n mod 128) :: byte) = 128 + n mod 128"
      by (rule unat_of_nat_byte) simp
    with False 1 show ?thesis
      by (simp add: encodeUint.simps [of n])
  qed
qed

lemma decodeBytes_encodeBytes: "decodeBytes (encodeBytes p @ rest) = Some (p, rest)"
  by (simp add: decodeBytes_def encodeBytes_def decodeUint_encodeUint)

lemma char_of_unat_of_char: "char_of (unat (of_char c :: byte)) = c"
proof -
  have "(of_char c :: byte) = of_nat (of_char c)" by (simp add: of_nat_of_char)
  then have "unat (of_char c :: byte) = of_char c" by (simp add: unat_of_nat)
  then show ?thesis by simp
qed

lemma decodeString_encodeString: "decodeString (encodeString s @ rest) = Some (s, rest)"
  by (simp add: decodeString_def encodeString_def decodeBytes_encodeBytes
      char_of_unat_of_char comp_def)

lemma decodeCloneable_registered:
  "registered r \<Longrightarrow> decodeCloneable (wireCloneable r @ rest) = Inr (r, rest)"
  by (cases r) (simp_all add: decodeCloneable_def wireCloneable_def init_def
      decodeString_encodeString decodeBytes_encodeBytes)

lemma decodeResources_registered:
  "list_all registered rs \<Longrightarrow>
   decodeResources (length rs) (concat (map wireCloneable rs) @ rest) utc =
     (utc\<lparr>Resources := Resources utc @ rs\<rparr>, None)"
  by (induction rs arbitrary: utc) (simp_all add: decodeCloneable_registered)

lemma gob_Decode_wireConfig:
  "list_all registered (Resources utc) \<Longrightarrow>
   gob_Decode (wireConfig utc @ rest) utc0 =
     (utc0\<lparr>UVMID := UVMID utc, Resources := Resources utc\<rparr>, None)"
  by (simp add: gob_Decode_def wireConfig_def decodeString_encodeString decodeUint_encodeUint
      decodeResources_registered)

lemma find_unregistered_None:
  "find (\<lambda>r. \<not> registered r) rs = None \<longleftrightarrow> list_all registered rs"
  by (induction rs) auto

lemma encodeTemplateConfig_registered:
  "list_all registered (Resources c) \<Longrightarrow> encodeTemplateConfig c = (Some (wireConfig c), None)"
  by (simp add: encodeTemplateConfig_def gob_Encode_def find_unregistered_None [THEN iffD2])

lemma decodeTemplateConfig_wireConfig:
  "list_all registered (Resources c) \<Longrightarrow>
   decodeTemplateConfig (wireConfig c @ rest) = (Some c, None)"
  using gob_Decode_wireConfig [of c rest "\<lparr>UVMID = [], Resources = []\<rparr>"]
  by (simp add: decodeTemplateConfig_def)

text \<open>
  C2. For every template configuration whose resource descriptors are all of a registered
  type, encoding succeeds and decoding the bytes it gives returns the same configuration:
  the same id and the same descriptors, in order, each of its own variant.
\<close>

theorem encode_decode_roundtrip:
  "list_all registered (Resources c) \<Longrightarrow>
   \<exists>bs. encodeTemplateConfig c = (Some bs, None) \<and> decodeTemplateConfig bs = (Some c, None)"
  using decodeTemplateConfig_wireConfig [of c "[]"]
  by (simp add: encodeTemplateConfig_registered)

theorem encode_decode_roundtrip_witness:
  "list_all registered
     (Resources \<lparr>UVMID = ''vm1'', Resources = [VSMBShare [1, 2], SCSIMount [3]]\<rparr>) \<and>
   (\<exists>bs. encodeTemplateConfig \<lparr>UVMID = ''vm1'', Resources = [VSMBShare [1, 2], SCSIMount [3]]\<rparr>
           = (Some bs, None) \<and>
         decodeTemplateConfig bs
           = (Some \<lparr>UVMID = ''vm1'', Resources = [VSMBShare [1, 2], SCSIMount [3]]\<rparr>, None))"
  using encode_decode_roundtrip
    [of "\<lparr>UVMID = ''vm1'', Resources = [VSMBShare [1, 2], SCSIMount [3]]\<rparr>"]
  by simp

lemma decodeCloneable_tag_known:
  "gob_name r \<in> set init \<Longrightarrow>
   \<exists>r'. decodeCloneable (wireCloneable r @ rest) = Inr (r', rest)"
  by (simp add: decodeCloneable_def wireCloneable_def decodeString_encodeString
      decodeBytes_encodeBytes)

lemma decodeCloneable_tag_unknown:
  "tag \<notin> set init \<Longrightarrow>
   decodeCloneable (encodeString tag @ rest) =
     Inl (ErrorString (''gob: name not registered for interface: ''
                         @ [CHR 0x22] @ tag @ [CHR 0x22]))"
  by (simp add: decodeCloneable_def decodeString_encodeString)

lemma decodeResources_tag_unknown:
  "list_all (\<lambda>r. gob_name r \<in> set init) rs \<Longrightarrow> length rs < n \<Longrightarrow> tag \<notin> set init \<Longrightarrow>
   snd (decodeResources n (concat (map wireCloneable rs) @ encodeString tag @ rest) utc) =
     Some (ErrorString (''gob: name not registered for interface: ''
                         @ [CHR 0x22] @ tag @ [CHR 0x22]))"
proof (induction rs arbitrary: n utc)
  case Nil
  then obtain m where "n = Suc m" by (cases n) auto
  with Nil show ?case by (simp add: decodeCloneable_tag_unknown)
next
  case (Cons r rs)
  then obtain m where n: "n = Suc m" and m: "length rs < m" by (cases n) auto
  from Cons.prems obtain r' where
    "decodeCloneable (wireCloneable r @ concat (map wireCloneable rs) @ encodeString tag @ rest)
       = Inr (r', concat (map wireCloneable rs) @ encodeString tag @ rest)"
    using decodeCloneable_tag_known [of r] by auto
  with Cons.IH [OF _ m] Cons.prems n show ?case by simp
qed

lemma decodeResources_UVMID: "UVMID (fst (decodeResources n bs utc)) = UVMID utc"
  by (induction n arbitrary: bs utc) (simp_all split: sum.splits prod.splits)

lemma decodeTemplateConfig_nil_on_error:
  "snd (decodeTemplateConfig bs) \<noteq> None \<Longrightarrow> fst (decodeTemplateConfig bs) = None"
  by (simp add: decodeTemplateConfig_def split: prod.splits option.splits)

text \<open>
  C8. A blob that holds, after the id, the count and any descriptors with registered tags,
  a descriptor whose tag is outside the registered set (whatever follows the tag) does not
  decode: \<open>decodeTemplateConfig\<close> returns the decoding error that names the tag, and no
  configuration with it, although the decoder had filled part of one (the id). For every
  blob, an error of \<open>decodeTemplateConfig\<close> comes with no configuration.
\<close>

theorem decode_unknown_variant:
  "list_all (\<lambda>r. gob_name r \<in> set init) rs \<Longrightarrow> length rs < n \<Longrightarrow> tag \<notin> set init \<Longrightarrow>
   decodeTemplateConfig
       (encodeString ident @ encodeUint n @ concat (map wireCloneable rs)
          @ encodeString tag @ rest) =
     (None, Some (ErrorString (''error while decoding template config: ''
        @ ''gob: name not registered for interface: '' @ [CHR 0x22] @ tag @ [CHR 0x22]))) \<and>
   UVMID (fst (gob_Decode
       (encodeString ident @ encodeUint n @ concat (map wireCloneable rs)
          @ encodeString tag @ rest) \<lparr>UVMID = [], Resources = []\<rparr>)) = ident \<and>
   (\<forall>bs. snd (decodeTemplateConfig bs) \<noteq> None \<longrightarrow> fst (decodeTemplateConfig bs) = None)"
proof -
  assume a: "list_all (\<lambda>r. gob_name r \<in> set init) rs" "length rs < n" "tag \<notin> set init"
  let ?bs = "concat (map wireCloneable rs) @ encodeString tag @ rest"
  let ?e = "ErrorString (''gob: name not registered for interface: ''
                           @ [CHR 0x22] @ tag @ [CHR 0x22])"
  have g: "gob_Decode (encodeString ident @ encodeUint n @ ?bs) \<lparr>UVMID = [], Resources = []\<rparr>
        = decodeResources n ?bs \<lparr>UVMID = ident, Resources = []\<rparr>"
    by (simp add: gob_Decode_def decodeString_encodeString decodeUint_encodeUint)
  obtain utc' where "decodeResources n ?bs \<lparr>UVMID = ident, Resources = []\<rparr> = (utc', Some ?e)"
    using decodeResources_tag_unknown [OF a, of rest "\<lparr>UVMID = ident, Resources = []\<rparr>"]
    by (cases "decodeResources n ?bs \<lparr>UVMID = ident, Resources = []\<rparr>") auto
  with g have "decodeTemplateConfig (encodeString ident @ encodeUint n @ ?bs) =
     (None, Some (ErrorString (''error while decoding template config: ''
        @ ''gob: name not registered for interface: '' @ [CHR 0x22] @ tag @ [CHR 0x22])))"
    by (simp add: decodeTemplateConfig_def)
  moreover have "UVMID (fst (gob_Decode (encodeString ident @ encodeUint n @ ?bs)
      \<lparr>UVMID = [], Resources = []\<rparr>)) = ident"
    by (simp add: g decodeResources_UVMID)
  ultimately show ?thesis using decodeTemplateConfig_nil_on_error by blast
qed

theorem decode_unknown_variant_witness:
  "list_all (\<lambda>r. gob_name r \<in> set init) [VSMBShare [1, 2]] \<and>
   length [VSMBShare [1, 2]] < (2::nat) \<and> ''*uvm.Foo'' \<notin> set init \<and>
   decodeTemplateConfig
       (encodeString ''vm1'' @ encodeUint 2 @ concat (map wireCloneable [VSMBShare [1, 2]])
          @ encodeString ''*uvm.Foo'' @ [1, 3]) =
     (None, Some (ErrorString (''error while decoding template config: ''
        @ ''gob: name not registered for interface: '' @ [CHR 0x22] @ ''*uvm.Foo'' @ [CHR 0x22])))"
  using decode_unknown_variant [of "[VSMBShare [1, 2]]" 2 "''*uvm.Foo''" "''vm1''" "[1, 3]"]
  by (simp add: init_def)

subsection \<open>The store wrappers\<close>

lemmas store_defs = loadPersistedUVMConfig_def storePersistedUVMConfig_def
  removePersistedUVMConfig_def regstate_Open_def log_call_def

lemma load_world:
  "registry (snd (loadPersistedUVMConfig i w)) = registry w"
  "failing (snd (loadPersistedUVMConfig i w)) = failing w"
  by (simp_all add: store_defs split: option.splits sum.splits prod.splits)

lemma load_calls:
  "calls (snd (loadPersistedUVMConfig i w)) =
     calls w @ (if failing w OpOpen = None \<and> registry w configRoot \<noteq> None
                then [RegOpen configRoot, RegGet i configKey, RegClose configRoot]
                else [RegOpen configRoot])"
  by (auto simp add: store_defs split: option.splits sum.splits prod.splits)

lemma load_result:
  "fst (loadPersistedUVMConfig i w) =
     (case failing w OpOpen of
        Some m \<Rightarrow> (None, Some (StoreError m))
      | None \<Rightarrow>
          (case registry w configRoot of
             None \<Rightarrow> (None, Some (NotFoundError configRoot))
           | Some ns \<Rightarrow>
               (case failing w OpGet of
                  Some m \<Rightarrow> (None, Some (StoreError m))
                | None \<Rightarrow>
                    (case stored w i of
                       None \<Rightarrow> (None, Some (NotFoundError i))
                     | Some bs \<Rightarrow> (Some bs, None)))))"
  by (auto simp add: store_defs stored_def split: option.splits sum.splits prod.splits)

lemma load_NotFound_iff:
  "IsNotFoundError (snd (fst (loadPersistedUVMConfig i w))) \<longleftrightarrow>
     failing w OpOpen = None \<and>
     (registry w configRoot = None \<or> failing w OpGet = None \<and> stored w i = None)"
  by (auto simp add: load_result split: option.splits)

lemma store_result:
  "storePersistedUVMConfig i bs w =
     (case failing w OpOpen of
        Some m \<Rightarrow> (Some (StoreError m), w\<lparr>calls := calls w @ [RegOpen configRoot]\<rparr>)
      | None \<Rightarrow>
          (case registry w configRoot of
             None \<Rightarrow> (Some (NotFoundError configRoot), w\<lparr>calls := calls w @ [RegOpen configRoot]\<rparr>)
           | Some ns \<Rightarrow>
               (case failing w OpCreate of
                  Some m \<Rightarrow>
                    (Some (StoreError m),
                     w\<lparr>calls := calls w @ [RegOpen configRoot, RegCreate i configKey bs,
                                             RegClose configRoot]\<rparr>)
                | None \<Rightarrow>
                    (case ns i of
                       Some _ \<Rightarrow>
                         (Some (StoreError (''key '' @ i @ '' exists'')),
                          w\<lparr>calls := calls w @ [RegOpen configRoot, RegCreate i configKey bs,
                                                  RegClose configRoot]\<rparr>)
                     | None \<Rightarrow>
                         (None,
                          w\<lparr>registry := (registry w)(configRoot \<mapsto> ns(i \<mapsto> [configKey \<mapsto> bs])),
                            calls := calls w @ [RegOpen configRoot, RegCreate i configKey bs,
                                                RegClose configRoot]\<rparr>)))))"
  by (simp add: store_defs split: option.splits sum.splits prod.splits)

lemma store_success:
  assumes "storePersistedUVMConfig i bs w = (None, w1)"
  shows "stored w1 i = Some bs" "failing w1 = failing w"
    "failing w OpOpen = None" "stored w i = None"
  using assms
  by (auto simp add: store_result stored_def split: option.splits)

lemma store_calls:
  "\<exists>cs. calls (snd (storePersistedUVMConfig i bs w)) = calls w @ RegOpen configRoot # cs"
  by (simp add: store_result split: option.splits)

lemma stored_Some_root: "stored w i = Some bs \<Longrightarrow> registry w configRoot \<noteq> None"
  by (auto simp add: stored_def split: option.splits)

lemma remove_result:
  "removePersistedUVMConfig i w =
     (case failing w OpOpen of
        Some m \<Rightarrow> (Some (StoreError m), w\<lparr>calls := calls w @ [RegOpen configRoot]\<rparr>)
      | None \<Rightarrow>
          (case registry w configRoot of
             None \<Rightarrow> (None, w\<lparr>calls := calls w @ [RegOpen configRoot]\<rparr>)
           | Some ns \<Rightarrow>
               (case failing w OpRemove of
                  Some m \<Rightarrow>
                    (Some (StoreError m),
                     w\<lparr>calls := calls w @ [RegOpen configRoot, RegRemove i, RegClose configRoot]\<rparr>)
                | None \<Rightarrow>
                    (case ns i of
                       None \<Rightarrow>
                         (None,
                          w\<lparr>calls := calls w @ [RegOpen configRoot, RegRemove i,
                                                  RegClose configRoot]\<rparr>)
                     | Some _ \<Rightarrow>
                         (None,
                          w\<lparr>registry := (registry w)(configRoot \<mapsto> ns(i := None)),
                            calls := calls w @ [RegOpen configRoot, RegRemove i,
                                                RegClose configRoot]\<rparr>)))))"
  by (simp add: store_defs split: option.splits sum.splits prod.splits)

lemma remove_world:
  "failing (snd (removePersistedUVMConfig i w)) = failing w"
  by (simp add: remove_result split: option.splits)

lemma remove_stored:
  "fst (removePersistedUVMConfig i w) = None \<Longrightarrow> stored (snd (removePersistedUVMConfig i w)) i = None"
  by (auto simp add: remove_result stored_def split: option.splits)

lemma calls_between_append: "calls w' = calls w @ cs \<Longrightarrow> calls_between w w' = cs"
  by (simp add: calls_between_def)

subsection \<open>Saving\<close>

lemma save_rejected:
  assumes "\<not> IsNotFoundError (snd (fst (loadPersistedUVMConfig (UVMID utc) w)))"
  shows "SaveTemplateConfig utc w =
     (Some (ErrorString (''parent VM(ID: '' @ UVMID utc
               @ '') config shouldn't exit in registry (''
               @ fmt_s (snd (fst (loadPersistedUVMConfig (UVMID utc) w))) @ '')'')),
      snd (loadPersistedUVMConfig (UVMID utc) w))"
proof -
  obtain a b w1 where "loadPersistedUVMConfig (UVMID utc) w = ((a, b), w1)"
    by (metis prod.collapse)
  with assms show ?thesis by (simp add: SaveTemplateConfig_def)
qed

lemma save_encode_failed:
  assumes "IsNotFoundError (snd (fst (loadPersistedUVMConfig (UVMID utc) w)))"
    and "snd (encodeTemplateConfig utc) = Some e"
  shows "SaveTemplateConfig utc w =
     (Some (ErrorString (''failed to encode template config: '' @ Error e)),
      log_call CallEncode (snd (loadPersistedUVMConfig (UVMID utc) w)))"
proof -
  obtain a b w1 where "loadPersistedUVMConfig (UVMID utc) w = ((a, b), w1)"
    by (metis prod.collapse)
  moreover obtain x where "encodeTemplateConfig utc = (x, Some e)"
    using assms(2) by (metis prod.collapse)
  ultimately show ?thesis using assms by (simp add: SaveTemplateConfig_def)
qed

lemma save_encoded:
  assumes "IsNotFoundError (snd (fst (loadPersistedUVMConfig (UVMID utc) w)))"
    and "encodeTemplateConfig utc = (x, None)"
  shows "SaveTemplateConfig utc w =
     (map_option (\<lambda>err. ErrorString (''failed to store encoded template config: '' @ Error err))
        (fst (storePersistedUVMConfig (UVMID utc) (nilAsEmpty x)
                (log_call CallEncode (snd (loadPersistedUVMConfig (UVMID utc) w))))),
      snd (storePersistedUVMConfig (UVMID utc) (nilAsEmpty x)
                (log_call CallEncode (snd (loadPersistedUVMConfig (UVMID utc) w)))))"
proof -
  obtain a b w1 where "loadPersistedUVMConfig (UVMID utc) w = ((a, b), w1)"
    by (metis prod.collapse)
  moreover obtain c w2 where
    "storePersistedUVMConfig (UVMID utc) (nilAsEmpty x) (log_call CallEncode w1) = (c, w2)"
    by (metis prod.collapse)
  ultimately show ?thesis using assms by (cases c) (simp_all add: SaveTemplateConfig_def)
qed

lemma encode_cases:
  "encodeTemplateConfig utc =
     (if list_all registered (Resources utc) then (Some (wireConfig utc), None)
      else (None, Some (ErrorString (''error while encoding template config: ''
              @ ''gob: type not registered for interface: ''
              @ gob_name (the (find (\<lambda>r. \<not> registered r) (Resources utc)))))))"
  by (auto simp add: encodeTemplateConfig_def gob_Encode_def find_unregistered_None [symmetric]
      split: option.splits)

lemma save_success:
  assumes "SaveTemplateConfig utc w = (None, w1)"
  shows "list_all registered (Resources utc)"
    and "stored w1 (UVMID utc) = Some (wireConfig utc)"
    and "failing w1 = failing w" and "failing w OpOpen = None" and "failing w OpGet = None"
proof -
  have nf: "IsNotFoundError (snd (fst (loadPersistedUVMConfig (UVMID utc) w)))"
    using assms save_rejected [of utc w] by auto
  let ?w = "log_call CallEncode (snd (loadPersistedUVMConfig (UVMID utc) w))"
  show reg: "list_all registered (Resources utc)"
  proof (rule ccontr)
    assume "\<not> list_all registered (Resources utc)"
    then obtain e where "snd (encodeTemplateConfig utc) = Some e"
      by (simp add: encode_cases)
    from save_encode_failed [OF nf this] assms show False by simp
  qed
  then have "encodeTemplateConfig utc = (Some (wireConfig utc), None)"
    by (simp add: encode_cases)
  from save_encoded [OF nf this] assms
  have st: "storePersistedUVMConfig (UVMID utc) (wireConfig utc) ?w = (None, w1)"
    by (cases "storePersistedUVMConfig (UVMID utc) (wireConfig utc) ?w") auto
  from store_success [OF st] show "stored w1 (UVMID utc) = Some (wireConfig utc)"
    and "failing w1 = failing w" and op: "failing w OpOpen = None"
    by (simp_all add: load_world log_call_def)
  have "registry w configRoot \<noteq> None"
    using st by (auto simp add: store_result load_world log_call_def split: option.splits)
  moreover have "stored w (UVMID utc) = None"
    using store_success(4) [OF st] by (simp add: stored_def load_world log_call_def)
  ultimately show "failing w OpGet = None"
    using nf by (auto simp add: load_NotFound_iff)
qed

lemmas sample_defs = worldNoRoot_def worldFresh_def configOne_def configForeignA_def
  configForeignB_def hostOne_def configRoot_def configKey_def

lemmas codec_defs = encodeTemplateConfig_def gob_Encode_def wireConfig_def wireCloneable_def
  encodeString_def encodeBytes_def encodeUint.simps

lemma saved_one: "fst (SaveTemplateConfig configOne worldFresh) = None"
  by (simp add: SaveTemplateConfig_def store_defs sample_defs codec_defs)

lemma saved_twice:
  "fst (SaveTemplateConfig configOne (snd (SaveTemplateConfig configOne worldFresh))) =
     Some (ErrorString ''parent VM(ID: vm1) config shouldn't exit in registry (%!s(<nil>))'')"
  by (simp add: SaveTemplateConfig_def store_defs sample_defs codec_defs)

lemma probe_fresh:
  "IsNotFoundError (snd (fst (loadPersistedUVMConfig (UVMID configOne) worldFresh)))"
  by (simp add: load_NotFound_iff stored_def sample_defs)

lemma probe_saved:
  "\<not> IsNotFoundError (snd (fst (loadPersistedUVMConfig (UVMID configOne)
        (snd (SaveTemplateConfig configOne worldFresh)))))"
  by (simp add: SaveTemplateConfig_def store_defs sample_defs codec_defs)

text \<open>
  C1. When \<open>SaveTemplateConfig\<close> has succeeded for a configuration, a second call for a
  configuration with the same id, in any world whose registry is as the first call left it,
  fails with the error that says the configuration of the parent VM should not exist in the
  registry, and the bytes stored under the id (the encoded first configuration) are the
  same after the failed call as before it; the whole registry is.
\<close>

theorem no_duplicate_save:
  assumes "SaveTemplateConfig utc w = (None, w1)"
    and "registry w1' = registry w1" and "UVMID utc' = UVMID utc"
  shows "(\<exists>cause. fst (SaveTemplateConfig utc' w1') =
            Some (ErrorString (''parent VM(ID: '' @ UVMID utc
                    @ '') config shouldn't exit in registry ('' @ cause @ '')''))) \<and>
         stored w1 (UVMID utc) = Some (wireConfig utc) \<and>
         stored (snd (SaveTemplateConfig utc' w1')) (UVMID utc) = Some (wireConfig utc) \<and>
         registry (snd (SaveTemplateConfig utc' w1')) = registry w1"
proof -
  have s: "stored w1 (UVMID utc) = Some (wireConfig utc)"
    using save_success(2) [OF assms(1)] .
  with assms(2) have s': "stored w1' (UVMID utc') = Some (wireConfig utc)"
    by (simp add: stored_def assms(3))
  then have "registry w1' configRoot \<noteq> None"
    by (rule stored_Some_root)
  with s' have "\<not> IsNotFoundError (snd (fst (loadPersistedUVMConfig (UVMID utc') w1')))"
    by (simp add: load_NotFound_iff)
  from save_rejected [OF this] s assms(2,3) show ?thesis
    by (simp add: load_world stored_def)
qed

theorem no_duplicate_save_witness:
  "fst (SaveTemplateConfig configOne worldFresh) = None \<and>
   fst (SaveTemplateConfig configOne (snd (SaveTemplateConfig configOne worldFresh))) =
     Some (ErrorString ''parent VM(ID: vm1) config shouldn't exit in registry (%!s(<nil>))'') \<and>
   stored (snd (SaveTemplateConfig configOne (snd (SaveTemplateConfig configOne worldFresh))))
     (UVMID configOne) = Some (wireConfig configOne)"
proof -
  have h: "SaveTemplateConfig configOne worldFresh =
     (None, snd (SaveTemplateConfig configOne worldFresh))"
    using saved_one by (simp add: prod_eq_iff)
  from no_duplicate_save [OF h refl refl]
  have "stored (snd (SaveTemplateConfig configOne (snd (SaveTemplateConfig configOne worldFresh))))
     (UVMID configOne) = Some (wireConfig configOne)"
    by blast
  with saved_one saved_twice show ?thesis by blast
qed

text \<open>
  C3. The existence probe decides. When the probe \<open>loadPersistedUVMConfig\<close> returns
  anything but the NotFound error (a record, or another error), \<open>SaveTemplateConfig\<close>
  returns an error, leaves the world as the probe left it, and neither the encoder nor
  \<open>Create\<close> is called. When the probe returns NotFound the encoder is called, and if
  it succeeds the world is the one that storing the encoded bytes leaves.
\<close>

theorem save_probe_gate:
  "(\<not> IsNotFoundError (snd (fst (loadPersistedUVMConfig (UVMID utc) w))) \<longrightarrow>
      fst (SaveTemplateConfig utc w) \<noteq> None \<and>
      snd (SaveTemplateConfig utc w) = snd (loadPersistedUVMConfig (UVMID utc) w) \<and>
      CallEncode \<notin> set (calls_between w (snd (SaveTemplateConfig utc w))) \<and>
      (\<forall>i k bs. RegCreate i k bs \<notin> set (calls_between w (snd (SaveTemplateConfig utc w))))) \<and>
   (IsNotFoundError (snd (fst (loadPersistedUVMConfig (UVMID utc) w))) \<longrightarrow>
      CallEncode \<in> set (calls_between w (snd (SaveTemplateConfig utc w))) \<and>
      (\<forall>x. encodeTemplateConfig utc = (x, None) \<longrightarrow>
         snd (SaveTemplateConfig utc w) =
           snd (storePersistedUVMConfig (UVMID utc) (nilAsEmpty x)
                  (log_call CallEncode (snd (loadPersistedUVMConfig (UVMID utc) w))))))"
proof (intro conjI impI allI)
  assume r: "\<not> IsNotFoundError (snd (fst (loadPersistedUVMConfig (UVMID utc) w)))"
  note e = save_rejected [OF r]
  show "fst (SaveTemplateConfig utc w) \<noteq> None" by (simp add: e)
  show "snd (SaveTemplateConfig utc w) = snd (loadPersistedUVMConfig (UVMID utc) w)"
    by (simp add: e)
  have c: "calls_between w (snd (SaveTemplateConfig utc w)) =
        (if failing w OpOpen = None \<and> registry w configRoot \<noteq> None
         then [RegOpen configRoot, RegGet (UVMID utc) configKey, RegClose configRoot]
         else [RegOpen configRoot])"
    by (rule calls_between_append) (simp add: e load_calls)
  show "CallEncode \<notin> set (calls_between w (snd (SaveTemplateConfig utc w)))"
    by (simp add: c)
  show "\<And>i k bs. RegCreate i k bs \<notin> set (calls_between w (snd (SaveTemplateConfig utc w)))"
    by (simp add: c)
next
  assume nf: "IsNotFoundError (snd (fst (loadPersistedUVMConfig (UVMID utc) w)))"
  let ?w1 = "snd (loadPersistedUVMConfig (UVMID utc) w)"
  obtain l where l: "calls ?w1 = calls w @ l" using load_calls [of "UVMID utc" w] by blast
  show "CallEncode \<in> set (calls_between w (snd (SaveTemplateConfig utc w)))"
  proof (cases "snd (encodeTemplateConfig utc)")
    case (Some e)
    have "calls (snd (SaveTemplateConfig utc w)) = calls w @ (l @ [CallEncode])"
      by (simp add: save_encode_failed [OF nf Some] log_call_def l)
    from calls_between_append [OF this] show ?thesis by simp
  next
    case None
    then obtain x where x: "encodeTemplateConfig utc = (x, None)" by (metis prod.collapse)
    obtain cs where "calls (snd (storePersistedUVMConfig (UVMID utc) (nilAsEmpty x)
         (log_call CallEncode ?w1))) = calls (log_call CallEncode ?w1) @ RegOpen configRoot # cs"
      using store_calls by blast
    then have "calls (snd (SaveTemplateConfig utc w))
        = calls w @ (l @ CallEncode # RegOpen configRoot # cs)"
      by (simp add: save_encoded [OF nf x] log_call_def l)
    from calls_between_append [OF this] show ?thesis by simp
  qed
next
  fix x
  assume nf: "IsNotFoundError (snd (fst (loadPersistedUVMConfig (UVMID utc) w)))"
    and x: "encodeTemplateConfig utc = (x, None)"
  show "snd (SaveTemplateConfig utc w) =
           snd (storePersistedUVMConfig (UVMID utc) (nilAsEmpty x)
                  (log_call CallEncode (snd (loadPersistedUVMConfig (UVMID utc) w))))"
    by (simp add: save_encoded [OF nf x])
qed

theorem save_probe_gate_witness:
  "\<not> IsNotFoundError (snd (fst (loadPersistedUVMConfig (UVMID configOne)
        (snd (SaveTemplateConfig configOne worldFresh))))) \<and>
   fst (SaveTemplateConfig configOne (snd (SaveTemplateConfig configOne worldFresh))) \<noteq> None \<and>
   CallEncode \<notin> set (calls_between (snd (SaveTemplateConfig configOne worldFresh))
      (snd (SaveTemplateConfig configOne (snd (SaveTemplateConfig configOne worldFresh))))) \<and>
   IsNotFoundError (snd (fst (loadPersistedUVMConfig (UVMID configOne) worldFresh))) \<and>
   CallEncode \<in> set (calls_between worldFresh (snd (SaveTemplateConfig configOne worldFresh))) \<and>
   encodeTemplateConfig configOne = (Some (wireConfig configOne), None) \<and>
   snd (SaveTemplateConfig configOne worldFresh) =
     snd (storePersistedUVMConfig (UVMID configOne) (wireConfig configOne)
            (log_call CallEncode (snd (loadPersistedUVMConfig (UVMID configOne) worldFresh))))"
proof -
  have e: "encodeTemplateConfig configOne = (Some (wireConfig configOne), None)"
    by (simp add: encodeTemplateConfig_registered configOne_def)
  from save_probe_gate [of configOne worldFresh] probe_fresh e
  have "CallEncode \<in> set (calls_between worldFresh (snd (SaveTemplateConfig configOne worldFresh))) \<and>
    snd (SaveTemplateConfig configOne worldFresh) =
     snd (storePersistedUVMConfig (UVMID configOne) (nilAsEmpty (Some (wireConfig configOne)))
            (log_call CallEncode (snd (loadPersistedUVMConfig (UVMID configOne) worldFresh))))"
    by blast
  note p1 = this [unfolded nilAsEmpty.simps]
  from save_probe_gate [of configOne "snd (SaveTemplateConfig configOne worldFresh)"] probe_saved
  have p2: "fst (SaveTemplateConfig configOne (snd (SaveTemplateConfig configOne worldFresh))) \<noteq> None \<and>
   CallEncode \<notin> set (calls_between (snd (SaveTemplateConfig configOne worldFresh))
      (snd (SaveTemplateConfig configOne (snd (SaveTemplateConfig configOne worldFresh)))))"
    by blast
  from p1 p2 probe_fresh probe_saved e show ?thesis by blast
qed

text \<open>
  C9, as amended. After a probe that returned NotFound, a failure of the encoder is returned
  as the text \<^verbatim>\<open>failed to encode template config: \<close> followed by the text of the
  encoder's error, and a failure of the store as the text
  \<^verbatim>\<open>failed to store encoded template config: \<close> followed by the text of the store's
  error; the two are never the same error, so the failing stage can be told from the
  returned error alone. The id of the template is not added to either.
\<close>

theorem save_stage_errors:
  "IsNotFoundError (snd (fst (loadPersistedUVMConfig (UVMID utc) w))) \<Longrightarrow>
   (\<forall>e. snd (encodeTemplateConfig utc) = Some e \<longrightarrow>
      fst (SaveTemplateConfig utc w) =
        Some (ErrorString (''failed to encode template config: '' @ Error e))) \<and>
   (\<forall>x e. encodeTemplateConfig utc = (x, None) \<and>
      fst (storePersistedUVMConfig (UVMID utc) (nilAsEmpty x)
             (log_call CallEncode (snd (loadPersistedUVMConfig (UVMID utc) w)))) = Some e \<longrightarrow>
      fst (SaveTemplateConfig utc w) =
        Some (ErrorString (''failed to store encoded template config: '' @ Error e))) \<and>
   (\<forall>e e'. ErrorString (''failed to encode template config: '' @ Error e) \<noteq>
           ErrorString (''failed to store encoded template config: '' @ Error e'))"
proof (intro conjI allI impI)
  assume nf: "IsNotFoundError (snd (fst (loadPersistedUVMConfig (UVMID utc) w)))"
  fix e assume "snd (encodeTemplateConfig utc) = Some e"
  from save_encode_failed [OF nf this]
  show "fst (SaveTemplateConfig utc w) =
        Some (ErrorString (''failed to encode template config: '' @ Error e))"
    by simp
next
  assume nf: "IsNotFoundError (snd (fst (loadPersistedUVMConfig (UVMID utc) w)))"
  fix x e
  assume a: "encodeTemplateConfig utc = (x, None) \<and>
      fst (storePersistedUVMConfig (UVMID utc) (nilAsEmpty x)
             (log_call CallEncode (snd (loadPersistedUVMConfig (UVMID utc) w)))) = Some e"
  then have x: "encodeTemplateConfig utc = (x, None)" by simp
  from save_encoded [OF nf x] a
  show "fst (SaveTemplateConfig utc w) =
        Some (ErrorString (''failed to store encoded template config: '' @ Error e))"
    by simp
next
  fix e e'
  show "ErrorString (''failed to encode template config: '' @ Error e) \<noteq>
           ErrorString (''failed to store encoded template config: '' @ Error e')"
    by simp
qed

lemma encode_foreign_A:
  "fst (SaveTemplateConfig configForeignA worldFresh) =
     Some (ErrorString (''failed to encode template config: '' @
       ''error while encoding template config: '' @
       ''gob: type not registered for interface: *uvm.Plan9Share''))"
  by (simp add: SaveTemplateConfig_def store_defs sample_defs codec_defs)

lemma encode_foreign_B:
  "fst (SaveTemplateConfig configForeignB worldFresh) =
     Some (ErrorString (''failed to encode template config: '' @
       ''error while encoding template config: '' @
       ''gob: type not registered for interface: *uvm.Plan9Share''))"
  by (simp add: SaveTemplateConfig_def store_defs sample_defs codec_defs)

theorem save_stage_errors_witness:
  "IsNotFoundError (snd (fst (loadPersistedUVMConfig (UVMID configForeignA) worldFresh))) \<and>
   snd (encodeTemplateConfig configForeignA) =
     Some (ErrorString (''error while encoding template config: '' @
             ''gob: type not registered for interface: *uvm.Plan9Share'')) \<and>
   fst (SaveTemplateConfig configForeignA worldFresh) =
     Some (ErrorString (''failed to encode template config: '' @
       ''error while encoding template config: '' @
       ''gob: type not registered for interface: *uvm.Plan9Share'')) \<and>
   IsNotFoundError (snd (fst (loadPersistedUVMConfig (UVMID configOne) worldNoRoot))) \<and>
   encodeTemplateConfig configOne = (Some (wireConfig configOne), None) \<and>
   fst (storePersistedUVMConfig (UVMID configOne) (wireConfig configOne)
          (log_call CallEncode (snd (loadPersistedUVMConfig (UVMID configOne) worldNoRoot))))
     = Some (NotFoundError ''LateClone'') \<and>
   fst (SaveTemplateConfig configOne worldNoRoot) =
     Some (ErrorString (''failed to store encoded template config: '' @
       Error (NotFoundError ''LateClone'')))"
proof -
  have p1: "IsNotFoundError (snd (fst (loadPersistedUVMConfig (UVMID configForeignA) worldFresh)))"
    by (simp add: load_NotFound_iff stored_def sample_defs)
  have e1: "snd (encodeTemplateConfig configForeignA) =
     Some (ErrorString (''error while encoding template config: '' @
             ''gob: type not registered for interface: *uvm.Plan9Share''))"
    by (simp add: codec_defs sample_defs)
  have p2: "IsNotFoundError (snd (fst (loadPersistedUVMConfig (UVMID configOne) worldNoRoot)))"
    by (simp add: load_NotFound_iff stored_def sample_defs)
  have e2: "encodeTemplateConfig configOne = (Some (wireConfig configOne), None)"
    by (simp add: encodeTemplateConfig_registered configOne_def)
  have s2: "fst (storePersistedUVMConfig (UVMID configOne) (wireConfig configOne)
          (log_call CallEncode (snd (loadPersistedUVMConfig (UVMID configOne) worldNoRoot))))
     = Some (NotFoundError ''LateClone'')"
    by (simp add: store_result load_world log_call_def sample_defs)
  from save_stage_errors [OF p1] e1
  have "fst (SaveTemplateConfig configForeignA worldFresh) =
     Some (ErrorString (''failed to encode template config: '' @
       ''error while encoding template config: '' @
       ''gob: type not registered for interface: *uvm.Plan9Share''))"
    by simp
  moreover from save_stage_errors [OF p2] e2 s2
  have "fst (SaveTemplateConfig configOne worldNoRoot) =
     Some (ErrorString (''failed to store encoded template config: '' @
       Error (NotFoundError ''LateClone'')))"
    by simp
  ultimately show ?thesis using p1 e1 p2 e2 s2 by blast
qed

text \<open>
  The errors of the two stages do not tell the id: two configurations with different ids
  get the very same error, at the encode stage (a descriptor of a type that is not
  registered) and at the store stage (the root is missing).
\<close>

theorem save_error_without_id_counterexample:
  "UVMID configForeignA \<noteq> UVMID configForeignB \<and>
   fst (SaveTemplateConfig configForeignA worldFresh) =
     Some (ErrorString (''failed to encode template config: '' @
       ''error while encoding template config: '' @
       ''gob: type not registered for interface: *uvm.Plan9Share'')) \<and>
   fst (SaveTemplateConfig configForeignB worldFresh) =
     fst (SaveTemplateConfig configForeignA worldFresh) \<and>
   UVMID configOne \<noteq> UVMID configTwo \<and>
   fst (SaveTemplateConfig configOne worldNoRoot) =
     Some (ErrorString (''failed to store encoded template config: '' @
       Error (NotFoundError ''LateClone''))) \<and>
   fst (SaveTemplateConfig configTwo worldNoRoot) =
     fst (SaveTemplateConfig configOne worldNoRoot)"
proof -
  have "UVMID configForeignA \<noteq> UVMID configForeignB" "UVMID configOne \<noteq> UVMID configTwo"
    by (simp_all add: sample_defs configTwo_def)
  moreover have "fst (SaveTemplateConfig configOne worldNoRoot) =
     Some (ErrorString (''failed to store encoded template config: '' @
       Error (NotFoundError ''LateClone'')))"
    by (simp add: SaveTemplateConfig_def store_defs sample_defs codec_defs)
  moreover have "fst (SaveTemplateConfig configTwo worldNoRoot) =
     Some (ErrorString (''failed to store encoded template config: '' @
       Error (NotFoundError ''LateClone'')))"
    by (simp add: SaveTemplateConfig_def store_defs sample_defs codec_defs configTwo_def)
  ultimately show ?thesis using encode_foreign_A encode_foreign_B by simp
qed

subsection \<open>Fetching\<close>

lemma fetch_result:
  "fst (FetchTemplateConfig i w) =
     (case fst (loadPersistedUVMConfig i w) of
        (_, Some err) \<Rightarrow>
          (None, Some (ErrorString (''failed to fetch encoded template config: '' @ Error err)))
      | (x, None) \<Rightarrow>
          (case decodeTemplateConfig (nilAsEmpty x) of
             (_, Some err) \<Rightarrow>
               (None, Some (ErrorString (''failed to decode template config: '' @ Error err)))
           | (utc, None) \<Rightarrow> (utc, None)))"
  by (simp add: FetchTemplateConfig_def split: prod.splits option.splits)

text \<open>
  C4. After a successful \<open>SaveTemplateConfig\<close> of a configuration, fetching its id in
  the world that the save left succeeds and returns that configuration.
\<close>

theorem fetch_after_save:
  assumes "SaveTemplateConfig utc w = (None, w1)"
  shows "fst (FetchTemplateConfig (UVMID utc) w1) = (Some utc, None)"
proof -
  note s = save_success [OF assms]
  from s(2) have "registry w1 configRoot \<noteq> None" by (rule stored_Some_root)
  with s have "fst (loadPersistedUVMConfig (UVMID utc) w1) = (Some (wireConfig utc), None)"
    by (auto simp add: load_result)
  with decodeTemplateConfig_wireConfig [OF s(1), of "[]"] show ?thesis
    by (simp add: fetch_result)
qed

theorem fetch_after_save_witness:
  "fst (SaveTemplateConfig configOne worldFresh) = None \<and>
   fst (FetchTemplateConfig (UVMID configOne) (snd (SaveTemplateConfig configOne worldFresh)))
     = (Some configOne, None)"
proof -
  have h: "SaveTemplateConfig configOne worldFresh =
     (None, snd (SaveTemplateConfig configOne worldFresh))"
    using saved_one by (simp add: prod_eq_iff)
  from fetch_after_save [OF h] saved_one show ?thesis by blast
qed

text \<open>
  C6, as amended. For an id with no stored record, \<open>loadPersistedUVMConfig\<close> returns
  an error, which is a NotFound error unless the underlying store fails at opening or at
  reading, and \<open>FetchTemplateConfig\<close> returns no configuration and a new error, whose
  text is \<^verbatim>\<open>failed to fetch encoded template config: \<close> followed by the text of that
  error. The new error is not itself recognised by \<open>IsNotFoundError\<close>.
\<close>

theorem fetch_missing:
  "stored w i = None \<Longrightarrow>
   \<exists>e. fst (loadPersistedUVMConfig i w) = (None, Some e) \<and>
       (failing w OpOpen = None \<and> failing w OpGet = None \<longrightarrow> IsNotFoundError (Some e)) \<and>
       fst (FetchTemplateConfig i w) =
         (None, Some (ErrorString (''failed to fetch encoded template config: '' @ Error e))) \<and>
       \<not> IsNotFoundError (snd (fst (FetchTemplateConfig i w)))"
  by (auto simp add: fetch_result load_result split: option.splits)

theorem fetch_missing_witness:
  "stored worldFresh ''vm1'' = None \<and> failing worldFresh OpOpen = None \<and>
   failing worldFresh OpGet = None \<and>
   fst (loadPersistedUVMConfig ''vm1'' worldFresh) = (None, Some (NotFoundError ''vm1'')) \<and>
   IsNotFoundError (Some (NotFoundError ''vm1'')) \<and>
   fst (FetchTemplateConfig ''vm1'' worldFresh) =
     (None, Some (ErrorString (''failed to fetch encoded template config: ''
                                 @ Error (NotFoundError ''vm1'')))) \<and>
   \<not> IsNotFoundError (snd (fst (FetchTemplateConfig ''vm1'' worldFresh)))"
proof -
  have a: "stored worldFresh ''vm1'' = None"
    by (simp add: stored_def sample_defs)
  have b: "failing worldFresh OpOpen = None" "failing worldFresh OpGet = None"
    by (simp_all add: sample_defs)
  have l: "fst (loadPersistedUVMConfig ''vm1'' worldFresh) = (None, Some (NotFoundError ''vm1''))"
    by (simp add: load_result stored_def sample_defs)
  from fetch_missing [OF a] l a b show ?thesis by auto
qed

text \<open>
  The error of a fetch is not a NotFound error: after a save and a removal of the same id,
  the error that comes back carries the text of the NotFound error and is not recognised
  by \<open>IsNotFoundError\<close>.
\<close>

theorem fetch_not_found_counterexample:
  "fst (RemoveSavedTemplateConfig ''vm1'' (snd (SaveTemplateConfig configOne worldFresh))) = None \<and>
   stored (snd (RemoveSavedTemplateConfig ''vm1'' (snd (SaveTemplateConfig configOne worldFresh))))
     ''vm1'' = None \<and>
   fst (FetchTemplateConfig ''vm1''
         (snd (RemoveSavedTemplateConfig ''vm1'' (snd (SaveTemplateConfig configOne worldFresh)))))
     = (None, Some (ErrorString (''failed to fetch encoded template config: ''
                                   @ Error (NotFoundError ''vm1'')))) \<and>
   \<not> IsNotFoundError (snd (fst (FetchTemplateConfig ''vm1''
         (snd (RemoveSavedTemplateConfig ''vm1'' (snd (SaveTemplateConfig configOne worldFresh)))))))"
  by (simp add: FetchTemplateConfig_def RemoveSavedTemplateConfig_def SaveTemplateConfig_def
      store_defs sample_defs codec_defs stored_def)

subsection \<open>Removing\<close>

text \<open>
  C7. When neither opening the root nor removing fails for a reason of the underlying
  store, \<open>RemoveSavedTemplateConfig\<close> returns no error, whether a record of the id
  exists or not; no record of the id is left, and a second call right after it returns no
  error either. Whenever it does return an error, that is a failure of the underlying
  store at opening or at removing, and no NotFound error.
\<close>

theorem idempotent_removal:
  "(failing w OpOpen = None \<and> failing w OpRemove = None \<longrightarrow>
      fst (RemoveSavedTemplateConfig i w) = None \<and>
      stored (snd (RemoveSavedTemplateConfig i w)) i = None \<and>
      fst (RemoveSavedTemplateConfig i (snd (RemoveSavedTemplateConfig i w))) = None) \<and>
   (\<forall>e. fst (RemoveSavedTemplateConfig i w) = Some e \<longrightarrow>
      \<not> IsNotFoundError (Some e) \<and>
      (\<exists>m. e = StoreError m \<and> (failing w OpOpen = Some m \<or> failing w OpRemove = Some m)))"
proof (intro conjI impI allI)
  assume a: "failing w OpOpen = None \<and> failing w OpRemove = None"
  then show r: "fst (RemoveSavedTemplateConfig i w) = None"
    by (simp add: RemoveSavedTemplateConfig_def remove_result split: option.splits)
  then show "stored (snd (RemoveSavedTemplateConfig i w)) i = None"
    by (simp add: RemoveSavedTemplateConfig_def remove_stored)
  have "failing (snd (RemoveSavedTemplateConfig i w)) = failing w"
    by (simp add: RemoveSavedTemplateConfig_def remove_world)
  with a show "fst (RemoveSavedTemplateConfig i (snd (RemoveSavedTemplateConfig i w))) = None"
    by (simp add: RemoveSavedTemplateConfig_def remove_result [of i "snd (removePersistedUVMConfig i w)"]
        split: option.splits)
next
  fix e assume e: "fst (RemoveSavedTemplateConfig i w) = Some e"
  then show "\<exists>m. e = StoreError m \<and> (failing w OpOpen = Some m \<or> failing w OpRemove = Some m)"
    by (auto simp add: RemoveSavedTemplateConfig_def remove_result split: option.splits)
  then show "\<not> IsNotFoundError (Some e)" by auto
qed

theorem idempotent_removal_witness:
  "failing (snd (SaveTemplateConfig configOne worldFresh)) OpOpen = None \<and>
   failing (snd (SaveTemplateConfig configOne worldFresh)) OpRemove = None \<and>
   stored (snd (SaveTemplateConfig configOne worldFresh)) ''vm1'' = Some (wireConfig configOne) \<and>
   fst (RemoveSavedTemplateConfig ''vm1'' (snd (SaveTemplateConfig configOne worldFresh))) = None \<and>
   stored (snd (RemoveSavedTemplateConfig ''vm1'' (snd (SaveTemplateConfig configOne worldFresh))))
     ''vm1'' = None \<and>
   fst (RemoveSavedTemplateConfig ''vm1''
     (snd (RemoveSavedTemplateConfig ''vm1'' (snd (SaveTemplateConfig configOne worldFresh)))))
     = None \<and>
   fst (RemoveSavedTemplateConfig ''vm1'' worldDenied) = Some (StoreError ''Access is denied.'') \<and>
   \<not> IsNotFoundError (Some (StoreError ''Access is denied.'')) \<and>
   failing worldDenied OpRemove = Some ''Access is denied.''"
proof -
  have a: "failing (snd (SaveTemplateConfig configOne worldFresh)) OpOpen = None"
    "failing (snd (SaveTemplateConfig configOne worldFresh)) OpRemove = None"
    by (simp_all add: SaveTemplateConfig_def store_defs sample_defs codec_defs)
  have b: "stored (snd (SaveTemplateConfig configOne worldFresh)) ''vm1'' = Some (wireConfig configOne)"
    by (simp add: SaveTemplateConfig_def store_defs sample_defs codec_defs stored_def)
  have c: "fst (RemoveSavedTemplateConfig ''vm1'' worldDenied) = Some (StoreError ''Access is denied.'')"
    by (simp add: RemoveSavedTemplateConfig_def remove_result worldDenied_def sample_defs)
  have d: "failing worldDenied OpRemove = Some ''Access is denied.''"
    by (simp add: worldDenied_def)
  from idempotent_removal [of "snd (SaveTemplateConfig configOne worldFresh)" "''vm1''"] a
  have "fst (RemoveSavedTemplateConfig ''vm1'' (snd (SaveTemplateConfig configOne worldFresh))) = None \<and>
   stored (snd (RemoveSavedTemplateConfig ''vm1'' (snd (SaveTemplateConfig configOne worldFresh))))
     ''vm1'' = None \<and>
   fst (RemoveSavedTemplateConfig ''vm1''
     (snd (RemoveSavedTemplateConfig ''vm1'' (snd (SaveTemplateConfig configOne worldFresh)))))
     = None"
    by blast
  moreover from idempotent_removal [of worldDenied "''vm1''"] c
  have "\<not> IsNotFoundError (Some (StoreError ''Access is denied.''))" by blast
  ultimately show ?thesis using a b c d by blast
qed

text \<open>
  C10. When opening the root itself fails with a NotFound error,
  \<open>RemoveSavedTemplateConfig\<close> returns no error; the only call it has made is that
  \<open>Open\<close>, and the registry is untouched.
\<close>

theorem remove_without_root:
  "fst (regstate_Open configRoot False w) = Inl e \<Longrightarrow> IsNotFoundError (Some e) \<Longrightarrow>
   RemoveSavedTemplateConfig i w = (None, snd (regstate_Open configRoot False w)) \<and>
   calls_between w (snd (RemoveSavedTemplateConfig i w)) = [RegOpen configRoot] \<and>
   registry (snd (RemoveSavedTemplateConfig i w)) = registry w"
proof -
  assume a: "fst (regstate_Open configRoot False w) = Inl e" "IsNotFoundError (Some e)"
  obtain w1 where o: "regstate_Open configRoot False w = (Inl e, w1)"
    using a(1) by (metis prod.collapse)
  then have r: "RemoveSavedTemplateConfig i w = (None, w1)"
    using a(2) by (simp add: RemoveSavedTemplateConfig_def removePersistedUVMConfig_def)
  from o have "calls w1 = calls w @ [RegOpen configRoot]" "registry w1 = registry w"
    by (auto simp add: regstate_Open_def log_call_def split: option.splits)
  with r o show ?thesis by (simp add: calls_between_def)
qed

theorem remove_without_root_witness:
  "fst (regstate_Open configRoot False worldNoRoot) = Inl (NotFoundError ''LateClone'') \<and>
   IsNotFoundError (Some (NotFoundError ''LateClone'')) \<and>
   RemoveSavedTemplateConfig ''vm1'' worldNoRoot =
     (None, snd (regstate_Open configRoot False worldNoRoot)) \<and>
   calls_between worldNoRoot (snd (RemoveSavedTemplateConfig ''vm1'' worldNoRoot))
     = [RegOpen configRoot]"
proof -
  have a: "fst (regstate_Open configRoot False worldNoRoot) = Inl (NotFoundError ''LateClone'')"
    by (simp add: regstate_Open_def sample_defs)
  have b: "IsNotFoundError (Some (NotFoundError ''LateClone''))" by simp
  from remove_without_root [OF a b, of "''vm1''"] a b show ?thesis by blast
qed

subsection \<open>The workflow\<close>

lemma load_calls_persist:
  "\<exists>cs. calls (snd (loadPersistedUVMConfig i w)) = calls w @ RegOpen configRoot # cs \<and>
        (\<forall>c \<in> set cs. step_of c = Persist)"
  by (simp add: load_calls)

lemma store_calls_persist:
  "\<exists>cs. calls (snd (storePersistedUVMConfig i bs w)) = calls w @ cs \<and>
        (\<forall>c \<in> set cs. step_of c = Persist)"
  by (simp add: store_result split: option.splits)

lemma save_calls_persist:
  "\<exists>cs. calls (snd (SaveTemplateConfig utc w)) = calls w @ RegOpen configRoot # cs \<and>
        (\<forall>c \<in> set cs. step_of c = Persist)"
proof -
  let ?w1 = "snd (loadPersistedUVMConfig (UVMID utc) w)"
  obtain l where l: "calls ?w1 = calls w @ RegOpen configRoot # l" "\<forall>c \<in> set l. step_of c = Persist"
    using load_calls_persist by blast
  show ?thesis
  proof (cases "IsNotFoundError (snd (fst (loadPersistedUVMConfig (UVMID utc) w)))")
    case False
    from save_rejected [OF False] l show ?thesis by simp
  next
    case nf: True
    show ?thesis
    proof (cases "snd (encodeTemplateConfig utc)")
      case (Some e)
      from save_encode_failed [OF nf Some] l show ?thesis by (simp add: log_call_def)
    next
      case None
      then obtain x where x: "encodeTemplateConfig utc = (x, None)" by (metis prod.collapse)
      obtain cs where cs: "calls (snd (storePersistedUVMConfig (UVMID utc) (nilAsEmpty x)
         (log_call CallEncode ?w1))) = calls (log_call CallEncode ?w1) @ cs"
         "\<forall>c \<in> set cs. step_of c = Persist"
        using store_calls_persist by blast
      from cs(1) l(1) have "calls (snd (SaveTemplateConfig utc w))
          = calls w @ RegOpen configRoot # (l @ CallEncode # cs)"
        by (simp add: save_encoded [OF nf x] log_call_def)
      moreover have "\<forall>c \<in> set (l @ CallEncode # cs). step_of c = Persist"
        using l(2) cs(2) by auto
      ultimately show ?thesis by blast
    qed
  qed
qed

lemma remdups_adj_run:
  "\<forall>c \<in> set cs. f c = s \<Longrightarrow> remdups_adj (s # map f cs @ ys) = remdups_adj (s # ys)"
proof (induction cs)
  case Nil
  show ?case by simp
next
  case (Cons c cs)
  then have "f c = s" and "\<forall>c \<in> set cs. f c = s" by simp_all
  with Cons.IH show ?case by simp
qed

lemmas host_defs = hostRefusing_def hostOne_def hostStuck_def

lemmas step_defs = RemoveAllNICs_def CloseGCSConnection_def GenerateTemplateConfig_def
  SaveAsTemplate_def log_call_def

text \<open>
  C5. \<open>saveAsTemplate\<close> runs its five steps in the order detach, sever, generate,
  persist, mark, and stops at the first that fails: the error of that step is returned as
  it is, the VM and the world are as that step left them, and the calls made show the
  steps up to the failing one and no later step. In particular, when closing the
  connection to the guest fails, the NICs have been removed, the calls show the steps
  detach and sever only, and the error of the close is returned.
\<close>

theorem workflow_fail_fast:
  "(\<forall>e h1 w1. RemoveAllNICs host w = (Some e, h1, w1) \<longrightarrow>
      saveAsTemplate host w = (Some e, h1, w1) \<and>
      steps_of (calls_between w w1) = [Detach]) \<and>
   (\<forall>h1 w1 e h2 w2.
      RemoveAllNICs host w = (None, h1, w1) \<and> CloseGCSConnection h1 w1 = (Some e, h2, w2) \<longrightarrow>
      saveAsTemplate host w = (Some e, h2, w2) \<and> nics h2 = [] \<and>
      steps_of (calls_between w w2) = [Detach, Sever]) \<and>
   (\<forall>h1 w1 h2 w2 x e w3.
      RemoveAllNICs host w = (None, h1, w1) \<and> CloseGCSConnection h1 w1 = (None, h2, w2) \<and>
      GenerateTemplateConfig h2 w2 = ((x, Some e), w3) \<longrightarrow>
      saveAsTemplate host w = (Some e, h2, w3) \<and>
      steps_of (calls_between w w3) = [Detach, Sever, Generate]) \<and>
   (\<forall>h1 w1 h2 w2 utc w3 e w4.
      RemoveAllNICs host w = (None, h1, w1) \<and> CloseGCSConnection h1 w1 = (None, h2, w2) \<and>
      GenerateTemplateConfig h2 w2 = ((Some utc, None), w3) \<and>
      SaveTemplateConfig utc w3 = (Some e, w4) \<longrightarrow>
      saveAsTemplate host w = (Some e, h2, w4) \<and>
      steps_of (calls_between w w4) = [Detach, Sever, Generate, Persist]) \<and>
   (\<forall>h1 w1 h2 w2 utc w3 w4 r h3 w5.
      RemoveAllNICs host w = (None, h1, w1) \<and> CloseGCSConnection h1 w1 = (None, h2, w2) \<and>
      GenerateTemplateConfig h2 w2 = ((Some utc, None), w3) \<and>
      SaveTemplateConfig utc w3 = (None, w4) \<and> SaveAsTemplate h2 w4 = (r, h3, w5) \<longrightarrow>
      saveAsTemplate host w = (r, h3, w5) \<and>
      steps_of (calls_between w w5) = [Detach, Sever, Generate, Persist, Mark])"
proof (intro conjI allI impI; (elim conjE)?)
  fix e h1 w1 assume "RemoveAllNICs host w = (Some e, h1, w1)"
  then show "saveAsTemplate host w = (Some e, h1, w1)"
    and "steps_of (calls_between w w1) = [Detach]"
    by (auto simp add: saveAsTemplate_def RemoveAllNICs_def log_call_def calls_between_def
        steps_of_def split: option.splits)
next
  fix h1 w1 e h2 w2
  assume "RemoveAllNICs host w = (None, h1, w1)" "CloseGCSConnection h1 w1 = (Some e, h2, w2)"
  then show "saveAsTemplate host w = (Some e, h2, w2)" and "nics h2 = []"
    and "steps_of (calls_between w w2) = [Detach, Sever]"
    by (auto simp add: saveAsTemplate_def RemoveAllNICs_def CloseGCSConnection_def log_call_def
        calls_between_def steps_of_def split: option.splits)
next
  fix h1 w1 h2 w2 x e w3
  assume "RemoveAllNICs host w = (None, h1, w1)" "CloseGCSConnection h1 w1 = (None, h2, w2)"
    "GenerateTemplateConfig h2 w2 = ((x, Some e), w3)"
  then show "saveAsTemplate host w = (Some e, h2, w3)"
    and "steps_of (calls_between w w3) = [Detach, Sever, Generate]"
    by (auto simp add: saveAsTemplate_def RemoveAllNICs_def CloseGCSConnection_def
        GenerateTemplateConfig_def log_call_def
        calls_between_def steps_of_def split: option.splits)
next
  fix h1 w1 h2 w2 utc w3 e w4
  assume a: "RemoveAllNICs host w = (None, h1, w1)" "CloseGCSConnection h1 w1 = (None, h2, w2)"
    "GenerateTemplateConfig h2 w2 = ((Some utc, None), w3)"
    "SaveTemplateConfig utc w3 = (Some e, w4)"
  then show "saveAsTemplate host w = (Some e, h2, w4)"
    by (simp add: saveAsTemplate_def)
  from a(1-3) have "calls w3 = calls w @ [VMRemoveAllNICs, VMCloseGCSConnection, VMGenerateTemplateConfig]"
    by (auto simp add: RemoveAllNICs_def CloseGCSConnection_def
        GenerateTemplateConfig_def log_call_def split: option.splits)
  moreover obtain cs where "calls w4 = calls w3 @ RegOpen configRoot # cs"
      "\<forall>c \<in> set cs. step_of c = Persist"
    using save_calls_persist [of utc w3] a(4) by auto
  ultimately show "steps_of (calls_between w w4) = [Detach, Sever, Generate, Persist]"
    using remdups_adj_run [of cs step_of Persist "[]"]
    by (simp add: calls_between_def steps_of_def)
next
  fix h1 w1 h2 w2 utc w3 w4 r h3 w5
  assume a: "RemoveAllNICs host w = (None, h1, w1)" "CloseGCSConnection h1 w1 = (None, h2, w2)"
    "GenerateTemplateConfig h2 w2 = ((Some utc, None), w3)"
    "SaveTemplateConfig utc w3 = (None, w4)" "SaveAsTemplate h2 w4 = (r, h3, w5)"
  then show "saveAsTemplate host w = (r, h3, w5)"
    by (cases r) (simp_all add: saveAsTemplate_def)
  from a(1-3) have "calls w3 = calls w @ [VMRemoveAllNICs, VMCloseGCSConnection, VMGenerateTemplateConfig]"
    by (auto simp add: RemoveAllNICs_def CloseGCSConnection_def
        GenerateTemplateConfig_def log_call_def split: option.splits)
  moreover obtain cs where "calls w4 = calls w3 @ RegOpen configRoot # cs"
      "\<forall>c \<in> set cs. step_of c = Persist"
    using save_calls_persist [of utc w3] a(4) by auto
  moreover from a(5) have "calls w5 = calls w4 @ [VMSaveAsTemplate]"
    by (auto simp add: SaveAsTemplate_def log_call_def split: option.splits)
  ultimately show "steps_of (calls_between w w5) = [Detach, Sever, Generate, Persist, Mark]"
    using remdups_adj_run [of cs step_of Persist "[Mark]"]
    by (simp add: calls_between_def steps_of_def)
qed

theorem workflow_fail_fast_witness:
  "fst (RemoveAllNICs (hostRefusing VMRemoveAllNICs) worldFresh) = Some (CollaboratorError ''refused'') \<and>
   fst (saveAsTemplate (hostRefusing VMRemoveAllNICs) worldFresh) = Some (CollaboratorError ''refused'') \<and>
   steps_of (calls_between worldFresh (snd (snd (saveAsTemplate (hostRefusing VMRemoveAllNICs) worldFresh))))
     = [Detach] \<and>
   fst (RemoveAllNICs hostStuck worldFresh) = None \<and>
   fst (CloseGCSConnection (hostStuck\<lparr>nics := []\<rparr>) (log_call VMRemoveAllNICs worldFresh))
     = Some (CollaboratorError ''gcs: connection not closed'') \<and>
   fst (saveAsTemplate hostStuck worldFresh) = Some (CollaboratorError ''gcs: connection not closed'') \<and>
   nics (fst (snd (saveAsTemplate hostStuck worldFresh))) = [] \<and>
   steps_of (calls_between worldFresh (snd (snd (saveAsTemplate hostStuck worldFresh))))
     = [Detach, Sever] \<and>
   fst (saveAsTemplate (hostRefusing VMGenerateTemplateConfig) worldFresh)
     = Some (CollaboratorError ''refused'') \<and>
   steps_of (calls_between worldFresh
       (snd (snd (saveAsTemplate (hostRefusing VMGenerateTemplateConfig) worldFresh))))
     = [Detach, Sever, Generate] \<and>
   fst (saveAsTemplate hostOne (snd (SaveTemplateConfig configOne worldFresh)))
     = Some (ErrorString ''parent VM(ID: vm1) config shouldn't exit in registry (%!s(<nil>))'') \<and>
   steps_of (calls_between (snd (SaveTemplateConfig configOne worldFresh))
       (snd (snd (saveAsTemplate hostOne (snd (SaveTemplateConfig configOne worldFresh))))))
     = [Detach, Sever, Generate, Persist] \<and>
   fst (saveAsTemplate hostOne worldFresh) = None \<and>
   isTemplate (fst (snd (saveAsTemplate hostOne worldFresh))) \<and>
   steps_of (calls_between worldFresh (snd (snd (saveAsTemplate hostOne worldFresh))))
     = [Detach, Sever, Generate, Persist, Mark]"
proof -
  \<comment> \<open>the first step fails\<close>
  let ?A = "hostRefusing VMRemoveAllNICs"
  have a1: "RemoveAllNICs ?A worldFresh =
      (Some (CollaboratorError ''refused''), ?A, log_call VMRemoveAllNICs worldFresh)"
    by (simp add: step_defs host_defs)
  note ra = workflow_fail_fast [of ?A worldFresh, THEN conjunct1, rule_format, OF a1]
  \<comment> \<open>closing the connection fails\<close>
  let ?W1 = "log_call VMRemoveAllNICs worldFresh"
  have b1: "RemoveAllNICs hostStuck worldFresh = (None, hostStuck\<lparr>nics := []\<rparr>, ?W1)"
    by (simp add: step_defs host_defs)
  have b2: "CloseGCSConnection (hostStuck\<lparr>nics := []\<rparr>) ?W1 =
     (Some (CollaboratorError ''gcs: connection not closed''), hostStuck\<lparr>nics := []\<rparr>,
      log_call VMCloseGCSConnection ?W1)"
    by (simp add: step_defs host_defs)
  note rb = workflow_fail_fast [of hostStuck worldFresh, THEN conjunct2, THEN conjunct1,
      rule_format, OF conjI [OF b1 b2]]
  \<comment> \<open>generating the configuration fails\<close>
  let ?C = "hostRefusing VMGenerateTemplateConfig"
  let ?W2 = "log_call VMCloseGCSConnection ?W1"
  have c1: "RemoveAllNICs ?C worldFresh = (None, ?C\<lparr>nics := []\<rparr>, ?W1)"
    by (simp add: step_defs host_defs)
  have c2: "CloseGCSConnection (?C\<lparr>nics := []\<rparr>) ?W1 =
      (None, ?C\<lparr>nics := [], gcsConnected := False\<rparr>, ?W2)"
    by (simp add: step_defs host_defs)
  have c3: "GenerateTemplateConfig (?C\<lparr>nics := [], gcsConnected := False\<rparr>) ?W2 =
      ((None, Some (CollaboratorError ''refused'')), log_call VMGenerateTemplateConfig ?W2)"
    by (simp add: step_defs host_defs)
  note rc = workflow_fail_fast [of ?C worldFresh, THEN conjunct2, THEN conjunct2, THEN conjunct1,
      rule_format, OF conjI [OF c1 conjI [OF c2 c3]]]
  \<comment> \<open>persisting fails: the template is in the registry already\<close>
  let ?S = "snd (SaveTemplateConfig configOne worldFresh)"
  let ?H2 = "hostOne\<lparr>nics := [], gcsConnected := False\<rparr>"
  let ?S3 = "log_call VMGenerateTemplateConfig (log_call VMCloseGCSConnection
               (log_call VMRemoveAllNICs ?S))"
  have d1: "RemoveAllNICs hostOne ?S = (None, hostOne\<lparr>nics := []\<rparr>, log_call VMRemoveAllNICs ?S)"
    by (simp add: step_defs host_defs)
  have d2: "CloseGCSConnection (hostOne\<lparr>nics := []\<rparr>) (log_call VMRemoveAllNICs ?S) =
      (None, ?H2, log_call VMCloseGCSConnection (log_call VMRemoveAllNICs ?S))"
    by (simp add: step_defs host_defs)
  have d3: "GenerateTemplateConfig ?H2 (log_call VMCloseGCSConnection (log_call VMRemoveAllNICs ?S))
      = ((Some configOne, None), ?S3)"
    by (simp add: step_defs host_defs configOne_def)
  have "fst (SaveTemplateConfig configOne ?S3) =
      Some (ErrorString ''parent VM(ID: vm1) config shouldn't exit in registry (%!s(<nil>))'')"
    by (simp add: SaveTemplateConfig_def store_defs sample_defs codec_defs)
  then have d4: "SaveTemplateConfig configOne ?S3 =
      (Some (ErrorString ''parent VM(ID: vm1) config shouldn't exit in registry (%!s(<nil>))''),
       snd (SaveTemplateConfig configOne ?S3))"
    by (simp add: prod_eq_iff)
  note rd = workflow_fail_fast [of hostOne ?S, THEN conjunct2, THEN conjunct2, THEN conjunct2,
      THEN conjunct1, rule_format, OF conjI [OF d1 conjI [OF d2 conjI [OF d3 d4]]]]
  \<comment> \<open>every step succeeds\<close>
  let ?W3 = "log_call VMGenerateTemplateConfig ?W2"
  let ?W4 = "snd (SaveTemplateConfig configOne ?W3)"
  have e1: "RemoveAllNICs hostOne worldFresh = (None, hostOne\<lparr>nics := []\<rparr>, ?W1)"
    by (simp add: step_defs host_defs)
  have e2: "CloseGCSConnection (hostOne\<lparr>nics := []\<rparr>) ?W1 = (None, ?H2, ?W2)"
    by (simp add: step_defs host_defs)
  have e3: "GenerateTemplateConfig ?H2 ?W2 = ((Some configOne, None), ?W3)"
    by (simp add: step_defs host_defs configOne_def)
  have "fst (SaveTemplateConfig configOne ?W3) = None"
    by (simp add: SaveTemplateConfig_def store_defs sample_defs codec_defs)
  then have e4: "SaveTemplateConfig configOne ?W3 = (None, ?W4)"
    by (simp add: prod_eq_iff)
  have e5: "SaveAsTemplate ?H2 ?W4 = (None, ?H2\<lparr>isTemplate := True\<rparr>, log_call VMSaveAsTemplate ?W4)"
    by (simp add: SaveAsTemplate_def host_defs)
  note re = workflow_fail_fast [of hostOne worldFresh, THEN conjunct2, THEN conjunct2,
      THEN conjunct2, THEN conjunct2, rule_format,
      OF conjI [OF e1 conjI [OF e2 conjI [OF e3 conjI [OF e4 e5]]]]]
  from ra rb rc rd re a1 b1 b2 show ?thesis by simp
qed

end
